theory Spec2Isabelle
  imports Main "HOL-Library.Sublist"
begin

section \<open>The Babel loader of build_angular: option resolution and stage assembly\<close>

text \<open>
  A shallow embedding of \<^verbatim>\<open>packages/angular_devkit/build_angular/src/babel/webpack-loader.ts\<close>:
  the helper \<^verbatim>\<open>requiresLinking\<close>, the \<^verbatim>\<open>customOptions\<close> hook that decides per file
  which transforms are needed, and the \<^verbatim>\<open>config\<close> hook that assembles the plugin and
  preset lists. The three module-level caches are an explicit state record that every
  call takes and returns; a rejected promise is the \<open>Inl\<close> branch of a sum.
\<close>

subsection \<open>Regular expressions over paths\<close>

text \<open>
  The source tests the resource path against five regular-expression literals. They use
  only literal text, character classes, alternation, the optional marker and the
  end-of-input anchor, so a list-of-successes matcher over these operators is enough:
  \<open>residuals r s\<close> lists what is left of \<open>s\<close> after each way of matching \<open>r\<close> at its
  front, and \<open>regex_test\<close> (the method \<^verbatim>\<open>RegExp.prototype.test\<close> of a pattern without
  flags) looks for a match starting at any position.
\<close>

datatype regex =
    Lit string
  | Cls "char list"
  | Seq regex regex
  | Alt regex regex
  | Opt regex
  | Eos

fun residuals :: "regex \<Rightarrow> string \<Rightarrow> string list" where
  "residuals (Lit w) s = (if prefix w s then [drop (length w) s] else [])"
| "residuals (Cls cs) s = (case s of [] \<Rightarrow> [] | c # t \<Rightarrow> if c \<in> set cs then [t] else [])"
| "residuals (Seq a b) s = concat (map (residuals b) (residuals a s))"
| "residuals (Alt a b) s = residuals a s @ residuals b s"
| "residuals (Opt a) s = residuals a s @ [s]"
| "residuals Eos s = (if s = [] then [s] else [])"

definition regex_test :: "regex \<Rightarrow> string \<Rightarrow> bool" where
  "regex_test r s = list_ex (\<lambda>t. residuals r t \<noteq> []) (suffixes s)"

definition seqs :: "regex list \<Rightarrow> regex" where
  "seqs rs = foldr Seq rs (Lit [])"

text \<open>The class of the two path separators, backslash and slash.\<close>

definition sep :: regex where
  "sep = Cls [CHR 0x5C, CHR ''/'']"

text \<open>
  Line 44: a separator, \<^verbatim>\<open>@angular\<close>, a separator, then \<^verbatim>\<open>compiler\<close> or \<^verbatim>\<open>core\<close>;
  or \<^verbatim>\<open>.ts\<close> with an optional \<^verbatim>\<open>x\<close> at the end of the path.
\<close>

definition linking_exempt_re :: regex where
  "linking_exempt_re =
     Alt (seqs [sep, Lit ''@angular'', sep, Alt (Lit ''compiler'') (Lit ''core'')])
         (seqs [Lit ''.ts'', Opt (Lit ''x''), Eos])"

text \<open>Line 108: a dot, an optional \<^verbatim>\<open>c\<close> or \<^verbatim>\<open>m\<close>, \<^verbatim>\<open>js\<close>, end of the path.\<close>

definition js_extension_re :: regex where
  "js_extension_re = seqs [Lit ''.'', Opt (Cls ''cm''), Lit ''js'', Eos]"

text \<open>Line 114: a separator, an optional \<^verbatim>\<open>_\<close> or \<^verbatim>\<open>f\<close>, \<^verbatim>\<open>esm2015\<close>, a separator.\<close>

definition esm2015_re :: regex where
  "esm2015_re = seqs [sep, Opt (Cls ''_f''), Lit ''esm2015'', sep]"

text \<open>Line 122: a separator, \<^verbatim>\<open>@angular\<close>, a separator, then \<^verbatim>\<open>compiler\<close> or \<^verbatim>\<open>localize\<close>.\<close>

definition localize_exempt_re :: regex where
  "localize_exempt_re =
     seqs [sep, Lit ''@angular'', sep, Alt (Lit ''compiler'') (Lit ''localize'')]"

text \<open>Line 148: a separator, \<^verbatim>\<open>node_modules\<close>, a separator, \<^verbatim>\<open>@angular\<close>, a separator.\<close>

definition angular_package_re :: regex where
  "angular_package_re = seqs [sep, Lit ''node_modules'', sep, Lit ''@angular'', sep]"

text \<open>\<^verbatim>\<open>String.prototype.includes\<close>: the word occurs somewhere in the text.\<close>

definition str_includes :: "string \<Rightarrow> string \<Rightarrow> bool" where
  "str_includes s w = list_ex (prefix w) (suffixes s)"

subsection \<open>JavaScript values and \<^verbatim>\<open>JSON.stringify\<close>\<close>

text \<open>
  Loader options are plain JavaScript objects. An object is the list of its own
  enumerable properties in property order, which for the named options handled here
  (no property name is an array index) is the order of insertion. Numbers are left out:
  the only number the loader reads, the script target, is a field of its own below.
  A function value is either the arrow function \<^verbatim>\<open>() => true\<close> of line 177 or a function
  of another module, known by an identifier only.
\<close>

datatype jsfun = ConstTrue | Native nat

datatype jsval =
    JUndefined
  | JNull
  | JBool bool
  | JStr string
  | JArr "jsval list"
  | JObj "(string \<times> jsval) list"
  | JFun jsfun

type_synonym jsobject = "(string \<times> jsval) list"

fun truthy :: "jsval \<Rightarrow> bool" where
  "truthy JUndefined = False"
| "truthy JNull = False"
| "truthy (JBool b) = b"
| "truthy (JStr s) = (s \<noteq> [])"
| "truthy (JArr xs) = True"
| "truthy (JObj kvs) = True"
| "truthy (JFun f) = True"

text \<open>Reading a property: \<^verbatim>\<open>undefined\<close> when the object has none of that name.\<close>

definition get_property :: "jsobject \<Rightarrow> string \<Rightarrow> jsval" where
  "get_property obj k = (case map_of obj k of None \<Rightarrow> JUndefined | Some v \<Rightarrow> v)"

text \<open>
  The order of the own properties (\<^verbatim>\<open>OrdinaryOwnPropertyKeys\<close> of ECMA-262): the
  properties whose name is an array index, a canonical decimal numeral below
  \<open>2\<^sup>3\<^sup>2 - 1\<close>, come first in ascending numeric order, and the other properties follow
  in the order of their creation. An object given as input is taken to be listed in this
  order.
\<close>

definition is_digit :: "char \<Rightarrow> bool" where
  "is_digit c \<longleftrightarrow> c \<in> set ''0123456789''"

definition digits_value :: "string \<Rightarrow> int" where
  "digits_value k = foldl (\<lambda>n c. 10 * n + ((of_char c :: int) - 48)) 0 k"

definition array_index :: "string \<Rightarrow> int option" where
  "array_index k =
     (if k \<noteq> [] \<and> list_all is_digit k \<and> (k = ''0'' \<or> take 1 k \<noteq> ''0'') \<and>
         digits_value k < 2 ^ 32 - 1
      then Some (digits_value k) else None)"

text \<open>
  Writing a property keeps the place of a property that exists; a new property goes
  to its place among the array indices when its name is one, and to the end otherwise.
  Spreading an object into another writes its properties in order.
\<close>

fun replace_property :: "string \<Rightarrow> jsval \<Rightarrow> jsobject \<Rightarrow> jsobject" where
  "replace_property k v [] = []"
| "replace_property k v ((k', v') # rest) =
     (if k' = k then (k, v) # rest else (k', v') # replace_property k v rest)"

fun insert_index :: "int \<Rightarrow> string \<Rightarrow> jsval \<Rightarrow> jsobject \<Rightarrow> jsobject" where
  "insert_index n k v [] = [(k, v)]"
| "insert_index n k v ((k', v') # rest) =
     (case array_index k' of
        None \<Rightarrow> (k, v) # (k', v') # rest
      | Some m \<Rightarrow>
          if m < n then (k', v') # insert_index n k v rest else (k, v) # (k', v') # rest)"

definition set_property :: "string \<Rightarrow> jsval \<Rightarrow> jsobject \<Rightarrow> jsobject" where
  "set_property k v obj =
     (if k \<in> set (map fst obj) then replace_property k v obj
      else
        (case array_index k of
           None \<Rightarrow> obj @ [(k, v)]
         | Some n \<Rightarrow> insert_index n k v obj))"

definition spread :: "jsobject \<Rightarrow> jsobject \<Rightarrow> jsobject" where
  "spread target src = foldl (\<lambda>obj (k, v). set_property k v obj) target src"

definition hex_digit :: "nat \<Rightarrow> char" where
  "hex_digit n = ''0123456789abcdef'' ! (n mod 16)"

text \<open>\<^verbatim>\<open>QuoteJSONString\<close> of ECMA-262, on a string of bytes.\<close>

definition quote_char :: "char \<Rightarrow> string" where
  "quote_char c =
     (let n = (of_char c :: nat) in
      if n = 0x22 then [CHR 0x5C, CHR 0x22]
      else if n = 0x5C then [CHR 0x5C, CHR 0x5C]
      else if n = 0x08 then [CHR 0x5C, CHR ''b'']
      else if n = 0x0C then [CHR 0x5C, CHR ''f'']
      else if n = 0x0A then [CHR 0x5C, CHR ''n'']
      else if n = 0x0D then [CHR 0x5C, CHR ''r'']
      else if n = 0x09 then [CHR 0x5C, CHR ''t'']
      else if n < 0x20 then [CHR 0x5C, CHR ''u'', CHR ''0'', CHR ''0'', hex_digit (n div 16), hex_digit n]
      else [c])"

definition quote :: "string \<Rightarrow> string" where
  "quote s = [CHR 0x22] @ concat (map quote_char s) @ [CHR 0x22]"

fun join :: "string \<Rightarrow> string list \<Rightarrow> string" where
  "join d [] = []"
| "join d [x] = x"
| "join d (x # y # ys) = x @ d @ join d (y # ys)"

text \<open>
  \<^verbatim>\<open>JSON.stringify\<close> with one argument: \<open>None\<close> is the result \<^verbatim>\<open>undefined\<close>. A property
  whose value is \<^verbatim>\<open>undefined\<close> or a function is left out of an object and written
  \<^verbatim>\<open>null\<close> in an array; the properties of an object are written in property order.
\<close>

fun JSON_stringify :: "jsval \<Rightarrow> string option" where
  "JSON_stringify JUndefined = None"
| "JSON_stringify (JFun f) = None"
| "JSON_stringify JNull = Some ''null''"
| "JSON_stringify (JBool b) = Some (if b then ''true'' else ''false'')"
| "JSON_stringify (JStr s) = Some (quote s)"
| "JSON_stringify (JArr xs) =
     Some (''['' @ join '',''
        (map (\<lambda>x. case JSON_stringify x of None \<Rightarrow> ''null'' | Some t \<Rightarrow> t) xs) @ '']'')"
| "JSON_stringify (JObj kvs) =
     Some (''{'' @ join '',''
        (concat (map (\<lambda>(k, v). case JSON_stringify v of
                                   None \<Rightarrow> []
                                 | Some t \<Rightarrow> [quote k @ '':'' @ t]) kvs)) @ ''}'')"

text \<open>The members \<^verbatim>\<open>JSON.stringify\<close> writes for an object, in the order it writes them.\<close>

definition json_members :: "jsobject \<Rightarrow> string list" where
  "json_members kvs =
     concat (map (\<lambda>(k, v). case JSON_stringify v of
                               None \<Rightarrow> []
                             | Some t \<Rightarrow> [quote k @ '':'' @ t]) kvs)"

subsection \<open>Data of the loader\<close>

text \<open>
  \<^verbatim>\<open>ScriptTarget\<close> is the numeric enumeration of the TypeScript compiler; the loader
  compares it with \<^verbatim>\<open>ES2015\<close> (2) and \<^verbatim>\<open>ES2017\<close> (4) as numbers.
\<close>

type_synonym ScriptTarget = int

definition ES2015 :: ScriptTarget where
  "ES2015 = 2"

definition ES2017 :: ScriptTarget where
  "ES2017 = 4"

record AngularLinker =
  shouldLink :: bool
  jitMode :: bool
  linker_linkerPluginCreator :: jsfun

record OptimizeFlags =
  looseEnums :: bool
  pureTopLevel :: bool
  wrapDecorators :: bool

text \<open>
  \<^verbatim>\<open>AngularCustomOptions\<close> (lines 14 to 22). The property \<^verbatim>\<open>i18n\<close> is an object of
  locale settings, kept as a JavaScript object since the loader only spreads it.
\<close>

record AngularCustomOptions =
  forceAsyncTransformation :: bool
  forceES5 :: bool
  angularLinker :: "AngularLinker option"
  i18n :: "jsobject option"
  optimize :: "OptimizeFlags option"

text \<open>
  The first argument of \<^verbatim>\<open>customOptions\<close>, destructured on line 72: four named
  properties and the rest. \<^verbatim>\<open>aot\<close> and \<^verbatim>\<open>optimize\<close> are only compared with \<^verbatim>\<open>true\<close>
  and tested for truthiness, so they stay JavaScript values.
\<close>

record loader_options =
  opt_i18n :: "jsobject option"
  opt_scriptTarget :: "ScriptTarget option"
  opt_aot :: jsval
  opt_optimize :: jsval
  rawOptions :: jsobject

text \<open>
  The loader context \<^verbatim>\<open>this\<close>: the resource path and, through two optional chains,
  the flag \<^verbatim>\<open>_module.factoryMeta.sideEffectFree\<close> of the bundler.
\<close>

record factory_meta =
  sideEffectFree :: "bool option"

record webpack_module =
  factoryMeta :: "factory_meta option"

record loader_context =
  resourcePath :: string
  this_module :: "webpack_module option"

datatype error = LoadFailure string

text \<open>
  What lies outside the file: the outcome of loading each of the three ECMAScript
  modules (the export the loader reads, or a failure), and the version string of
  \<^verbatim>\<open>package.json\<close>. The link detector is a function of path and source text.
\<close>

record env =
  linker_module :: "error + (string \<Rightarrow> string \<Rightarrow> bool)"
  linker_babel_module :: "error + jsfun"
  localize_tools_module :: "error + jsobject"
  package_version :: string

text \<open>
  The module-level variables of lines 27, 32 and 39, and two traces that the source
  does not keep: the specifiers passed to \<^verbatim>\<open>loadEsmModule\<close> and the arguments of every
  call of the link detector, in order. The traces are written and never read. The
  functions \<open>requiresLinking\<close> and \<open>customOptions\<close> below run an invocation from its
  first line to its return on the state they are given, with no other invocation in
  between; the suspension at an \<^verbatim>\<open>await\<close> and what other invocations do meanwhile are
  modelled in the subsection on overlapping invocations.
\<close>

record module_state =
  needsLinking :: "(string \<Rightarrow> string \<Rightarrow> bool) option"
  linkerPluginCreator :: "jsfun option"
  i18nPluginCreators :: "jsobject option"
  loads :: "string list"
  detections :: "(string \<times> string) list"

definition initial_state :: module_state where
  "initial_state =
     \<lparr>needsLinking = None, linkerPluginCreator = None, i18nPluginCreators = None,
      loads = [], detections = []\<rparr>"

subsection \<open>requiresLinking\<close>

text \<open>
  Modelled from the spec: \<^verbatim>\<open>loadEsmModule\<close>, imported from \<^verbatim>\<open>utils/load-esm\<close> and
  defined there, is the asynchronous load of an external capability that either yields
  the module or fails. Its outcome is the environment's; the call is recorded in
  the trace. \<open>call_detector\<close> is the call of line 58, recorded likewise.
\<close>

definition loadEsmModule ::
  "string \<Rightarrow> (error + 'a) \<Rightarrow> module_state \<Rightarrow> module_state \<times> (error + 'a)" where
  "loadEsmModule specifier outcome s = (s\<lparr>loads := loads s @ [specifier]\<rparr>, outcome)"

definition call_detector ::
  "(string \<Rightarrow> string \<Rightarrow> bool) \<Rightarrow> string \<Rightarrow> string \<Rightarrow> module_state \<Rightarrow> module_state \<times> bool" where
  "call_detector f path source s =
     (s\<lparr>detections := detections s @ [(path, source)]\<rparr>, f path source)"

definition requiresLinking ::
  "env \<Rightarrow> string \<Rightarrow> string \<Rightarrow> module_state \<Rightarrow> module_state \<times> (error + bool)" where
  "requiresLinking e path source s =
     (if regex_test linking_exempt_re path then (s, Inr False)
      else
        (case needsLinking s of
           Some f \<Rightarrow> (case call_detector f path source s of (s', b) \<Rightarrow> (s', Inr b))
         | None \<Rightarrow>
             (case loadEsmModule ''@angular/compiler-cli/linker'' (linker_module e) s of
                (s1, Inl err) \<Rightarrow> (s1, Inl err)
              | (s1, Inr f) \<Rightarrow>
                  (case call_detector f path source (s1\<lparr>needsLinking := Some f\<rparr>) of
                     (s', b) \<Rightarrow> (s', Inr b)))))"

subsection \<open>customOptions\<close>

text \<open>
  The hook works on two local variables, \<^verbatim>\<open>shouldProcess\<close> and \<^verbatim>\<open>customOptions\<close>.
  Each of its four commented blocks is a function from the locals to the locals; the
  two that await a load also pass the module state and may fail.
\<close>

record locals =
  shouldProcess :: bool
  customOptions_var :: AngularCustomOptions

text \<open>Line 74 and lines 76 to 81.\<close>

definition has_plugins :: "jsobject \<Rightarrow> bool" where
  "has_plugins raw =
     (case get_property raw ''plugins'' of JArr xs \<Rightarrow> length xs > 0 | _ \<Rightarrow> False)"

definition initial_locals :: "loader_options \<Rightarrow> locals" where
  "initial_locals opts =
     \<lparr>shouldProcess = has_plugins (rawOptions opts),
      customOptions_var =
        \<lparr>forceAsyncTransformation = False, forceES5 = False, angularLinker = None,
         i18n = None, optimize = None\<rparr>\<rparr>"

text \<open>Lines 83 to 101: analyze file for linking.\<close>

definition analyze_linking ::
  "env \<Rightarrow> loader_context \<Rightarrow> loader_options \<Rightarrow> string \<Rightarrow> locals \<Rightarrow> module_state
     \<Rightarrow> module_state \<times> (error + locals)" where
  "analyze_linking e this opts source l s =
     (case requiresLinking e (resourcePath this) source s of
        (s1, Inl err) \<Rightarrow> (s1, Inl err)
      | (s1, Inr False) \<Rightarrow> (s1, Inr l)
      | (s1, Inr True) \<Rightarrow>
          (case
             (case linkerPluginCreator s1 of
                Some c \<Rightarrow> (s1, Inr c)
              | None \<Rightarrow>
                  (case loadEsmModule ''@angular/compiler-cli/linker/babel''
                          (linker_babel_module e) s1 of
                     (s2, Inl err) \<Rightarrow> (s2, Inl err)
                   | (s2, Inr c) \<Rightarrow> (s2\<lparr>linkerPluginCreator := Some c\<rparr>, Inr c)))
           of
             (s2, Inl err) \<Rightarrow> (s2, Inl err)
           | (s2, Inr c) \<Rightarrow>
               (s2, Inr (l\<lparr>shouldProcess := True,
                   customOptions_var := (customOptions_var l)
                     \<lparr>angularLinker :=
                        Some \<lparr>shouldLink = True, jitMode = (opt_aot opts \<noteq> JBool True),
                              linker_linkerPluginCreator = c\<rparr>\<rparr>\<rparr>))))"

text \<open>Lines 103 to 117: analyze for ES target processing.\<close>

definition analyze_target :: "loader_context \<Rightarrow> loader_options \<Rightarrow> string \<Rightarrow> locals \<Rightarrow> locals" where
  "analyze_target this opts source l =
     (case opt_scriptTarget opts of
        None \<Rightarrow> l
      | Some esTarget \<Rightarrow>
          (let co = customOptions_var l;
               co' =
                 (if esTarget < ES2015 then co\<lparr>forceES5 := True\<rparr>
                  else if esTarget \<ge> ES2017 \<or> regex_test js_extension_re (resourcePath this)
                  then co\<lparr>forceAsyncTransformation :=
                         \<not> regex_test esm2015_re (resourcePath this) \<and>
                         str_includes source ''async''\<rparr>
                  else co)
           in l\<lparr>shouldProcess :=
                  shouldProcess l \<or> forceAsyncTransformation co' \<or> forceES5 co',
                customOptions_var := co'\<rparr>))"

text \<open>
  Lines 119 to 145: analyze for i18n inlining. The load of line 136 stands in a
  \<^verbatim>\<open>try\<close> with an empty \<^verbatim>\<open>catch\<close>: a failure leaves the variable as it was.
\<close>

text \<open>The condition of lines 120 to 124, which \<open>analyze_i18n\<close> tests in two steps.\<close>

definition i18n_applies :: "loader_context \<Rightarrow> loader_options \<Rightarrow> string \<Rightarrow> bool" where
  "i18n_applies this opts source \<longleftrightarrow>
     opt_i18n opts \<noteq> None \<and>
     \<not> regex_test localize_exempt_re (resourcePath this) \<and>
     str_includes source ''$localize''"

definition load_i18nPluginCreators :: "env \<Rightarrow> module_state \<Rightarrow> module_state" where
  "load_i18nPluginCreators e s =
     (if i18nPluginCreators s = None then
        (case loadEsmModule ''@angular/localize/tools'' (localize_tools_module e) s of
           (s1, Inl err) \<Rightarrow> s1
         | (s1, Inr m) \<Rightarrow> s1\<lparr>i18nPluginCreators := Some m\<rparr>)
      else s)"

definition analyze_i18n ::
  "env \<Rightarrow> loader_context \<Rightarrow> loader_options \<Rightarrow> string \<Rightarrow> locals \<Rightarrow> module_state
     \<Rightarrow> module_state \<times> locals" where
  "analyze_i18n e this opts source l s =
     (case opt_i18n opts of
        None \<Rightarrow> (s, l)
      | Some cfg \<Rightarrow>
          if \<not> regex_test localize_exempt_re (resourcePath this) \<and>
             str_includes source ''$localize''
          then
            (let s1 = load_i18nPluginCreators e s;
                 creators =
                   (case i18nPluginCreators s1 of None \<Rightarrow> JUndefined | Some m \<Rightarrow> JObj m)
             in (s1, l\<lparr>shouldProcess := True,
                       customOptions_var := (customOptions_var l)
                         \<lparr>i18n := Some (set_property ''i18nPluginCreators'' creators
                                         (spread [] cfg))\<rparr>\<rparr>))
          else (s, l))"

text \<open>Lines 147 to 160: the optimization flags.\<close>

definition side_effect_free :: "loader_context \<Rightarrow> bool" where
  "side_effect_free this =
     (case this_module this of
        None \<Rightarrow> False
      | Some m \<Rightarrow>
          (case factoryMeta m of
             None \<Rightarrow> False
           | Some meta \<Rightarrow> (case sideEffectFree meta of None \<Rightarrow> False | Some b \<Rightarrow> b)))"

definition analyze_optimize :: "loader_context \<Rightarrow> loader_options \<Rightarrow> locals \<Rightarrow> locals" where
  "analyze_optimize this opts l =
     (if truthy (opt_optimize opts) then
        (let angularPackage = regex_test angular_package_re (resourcePath this)
         in l\<lparr>shouldProcess := True,
              customOptions_var := (customOptions_var l)
                \<lparr>optimize :=
                   Some \<lparr>looseEnums = angularPackage, pureTopLevel = angularPackage,
                         wrapDecorators = side_effect_free this\<rparr>\<rparr>\<rparr>)
      else l)"

text \<open>Lines 74 to 160 in sequence: the locals when the loader options are built.\<close>

definition resolve ::
  "env \<Rightarrow> loader_context \<Rightarrow> loader_options \<Rightarrow> string \<Rightarrow> module_state
     \<Rightarrow> module_state \<times> (error + locals)" where
  "resolve e this opts source s =
     (case analyze_linking e this opts source (initial_locals opts) s of
        (s1, Inl err) \<Rightarrow> (s1, Inl err)
      | (s1, Inr l1) \<Rightarrow>
          (case analyze_i18n e this opts source (analyze_target this opts source l1) s1 of
             (s2, l3) \<Rightarrow> (s2, Inr (analyze_optimize this opts l3))))"

text \<open>Lines 62 to 69.\<close>

definition baseOptions :: jsobject where
  "baseOptions =
     [(''babelrc'', JBool False), (''configFile'', JBool False), (''compact'', JBool False),
      (''cacheCompression'', JBool False), (''sourceType'', JStr ''unambiguous''),
      (''inputSourceMap'', JBool False)]"

text \<open>
  The object \<^verbatim>\<open>customOptions\<close> as a JavaScript value: the four properties of its
  literal in their order, and \<^verbatim>\<open>optimize\<close> after them once line 149 has added it.
\<close>

definition customOptions_value :: "AngularCustomOptions \<Rightarrow> jsval" where
  "customOptions_value co =
     JObj ([(''forceAsyncTransformation'', JBool (forceAsyncTransformation co)),
            (''forceES5'', JBool (forceES5 co)),
            (''angularLinker'',
               (case angularLinker co of
                  None \<Rightarrow> JUndefined
                | Some al \<Rightarrow>
                    JObj [(''shouldLink'', JBool (shouldLink al)),
                          (''jitMode'', JBool (jitMode al)),
                          (''linkerPluginCreator'', JFun (linker_linkerPluginCreator al))])),
            (''i18n'', (case i18n co of None \<Rightarrow> JUndefined | Some obj \<Rightarrow> JObj obj))] @
           (case optimize co of
              None \<Rightarrow> []
            | Some fl \<Rightarrow>
                [(''optimize'',
                    JObj [(''looseEnums'', JBool (looseEnums fl)),
                          (''pureTopLevel'', JBool (pureTopLevel fl)),
                          (''wrapDecorators'', JBool (wrapDecorators fl))])]))"

text \<open>Lines 166 to 171.\<close>

definition cacheIdentifier :: "string \<Rightarrow> AngularCustomOptions \<Rightarrow> jsobject \<Rightarrow> jsobject \<Rightarrow> jsval" where
  "cacheIdentifier version co base raw =
     (case JSON_stringify
             (JObj [(''buildAngular'', JStr version),
                    (''customOptions'', customOptions_value co),
                    (''baseOptions'', JObj base),
                    (''rawOptions'', JObj raw)]) of
        None \<Rightarrow> JUndefined
      | Some key \<Rightarrow> JStr key)"

text \<open>Lines 162 to 178.\<close>

definition loaderOptions :: "env \<Rightarrow> loader_options \<Rightarrow> locals \<Rightarrow> jsobject" where
  "loaderOptions e opts l =
     (let lo = set_property ''cacheIdentifier''
                 (cacheIdentifier (package_version e) (customOptions_var l) baseOptions
                    (rawOptions opts))
                 (spread (spread [] baseOptions) (rawOptions opts))
      in if \<not> shouldProcess l then set_property ''ignore'' (JArr [JFun ConstTrue]) lo
         else lo)"

record custom_result =
  custom :: AngularCustomOptions
  loader :: jsobject

definition customOptions ::
  "env \<Rightarrow> loader_context \<Rightarrow> loader_options \<Rightarrow> string \<Rightarrow> module_state
     \<Rightarrow> module_state \<times> (error + custom_result)" where
  "customOptions e this opts source s =
     (case resolve e this opts source s of
        (s', Inl err) \<Rightarrow> (s', Inl err)
      | (s', Inr l) \<Rightarrow>
          (s', Inr \<lparr>custom = customOptions_var l, loader = loaderOptions e opts l\<rparr>))"

subsection \<open>config\<close>

text \<open>
  The plugin list holds the entries the configuration already had and the four
  optimization plugins the hook can push, two of them with an option; the preset list
  holds the entries it already had and the application preset, which carries the custom
  options and the diagnostics callback.
\<close>

datatype plugin_item =
    ExistingPlugin jsval
  | PureToplevelFunctions
  | ElideAngularMetadata
  | AdjustTypescriptEnums bool
  | AdjustStaticClassMembers bool

datatype emission = EmitError string | EmitWarning string

datatype preset_item =
    ExistingPreset jsval
  | ApplicationPreset AngularCustomOptions "string \<Rightarrow> string \<Rightarrow> emission list"

text \<open>
  Lines 215 to 226: what the callback sends to the loader context for a diagnostic of
  the given type. The case \<^verbatim>\<open>info\<close> falls through to \<^verbatim>\<open>warning\<close>; any other type
  sends nothing.
\<close>

definition diagnosticReporter :: "string \<Rightarrow> string \<Rightarrow> emission list" where
  "diagnosticReporter type message =
     (if type = ''error'' then [EmitError message]
      else if type = ''info'' \<or> type = ''warning'' then [EmitWarning message]
      else [])"

record babel_options =
  plugins :: "plugin_item list option"
  presets :: "preset_item list option"
  inputSourceMap :: jsval
  other_options :: jsobject

text \<open>
  Lines 182 to 231. \<open>None\<close> is a list that is \<^verbatim>\<open>undefined\<close>: the hook reads it as the
  empty list. The pushes of lines 186 and 189 extend the list in place, so the
  configuration's own list, when it has one, grows by the same entries.
\<close>

definition optimize_plugins :: "AngularCustomOptions \<Rightarrow> plugin_item list" where
  "optimize_plugins co =
     (case optimize co of
        None \<Rightarrow> []
      | Some fl \<Rightarrow>
          (if pureTopLevel fl then [PureToplevelFunctions] else []) @
          [ElideAngularMetadata,
           AdjustTypescriptEnums (looseEnums fl),
           AdjustStaticClassMembers (wrapDecorators fl)])"

definition config :: "babel_options \<Rightarrow> AngularCustomOptions \<Rightarrow> babel_options" where
  "config options co =
     (let plugins0 = (case plugins options of None \<Rightarrow> [] | Some ps \<Rightarrow> ps);
          plugins1 = plugins0 @ optimize_plugins co
      in options
           \<lparr>inputSourceMap :=
              (if truthy (inputSourceMap options) then inputSourceMap options else JBool False),
            plugins := Some plugins1,
            presets :=
              Some ((case presets options of None \<Rightarrow> [] | Some ps \<Rightarrow> ps) @
                    [ApplicationPreset co diagnosticReporter])\<rparr>)"

subsection \<open>Overlapping invocations\<close>


















subsection \<open>The cache key\<close>

text \<open>The cache key of a result: the property \<^verbatim>\<open>cacheIdentifier\<close> of its loader options.\<close>

definition cache_key :: "custom_result \<Rightarrow> jsval" where
  "cache_key r = get_property (loader r) ''cacheIdentifier''"

subsection \<open>Sample inputs\<close>

text \<open>
  Concrete inputs on which the theorems below are exercised: an environment whose link
  detector looks for the partial-declaration marker, whose two linker modules load and
  whose localize tools do not; a second environment whose localize tools load; a loader
  context for a path; and loader options with a given script target.
\<close>

definition sample_env :: env where
  "sample_env =
     \<lparr>linker_module = Inr (\<lambda>path source. str_includes source ''ngDeclare''),
      linker_babel_module = Inr (Native 1),
      localize_tools_module = Inl (LoadFailure ''@angular/localize/tools''),
      package_version = ''13.0.0''\<rparr>"

definition sample_env_tools :: env where
  "sample_env_tools =
     sample_env\<lparr>localize_tools_module := Inr [(''makeLocalePlugin'', JFun (Native 2))]\<rparr>"

definition sample_context :: "string \<Rightarrow> loader_context" where
  "sample_context path = \<lparr>resourcePath = path, this_module = None\<rparr>"

definition sample_context_pure :: "string \<Rightarrow> loader_context" where
  "sample_context_pure path =
     \<lparr>resourcePath = path,
      this_module = Some \<lparr>factoryMeta = Some \<lparr>sideEffectFree = Some True\<rparr>\<rparr>\<rparr>"

definition sample_options :: "ScriptTarget option \<Rightarrow> loader_options" where
  "sample_options target =
     \<lparr>opt_i18n = None, opt_scriptTarget = target, opt_aot = JBool True,
      opt_optimize = JUndefined, rawOptions = [(''cacheDirectory'', JStr ''/tmp/babel'')]\<rparr>"

definition sample_options_raw :: "jsobject \<Rightarrow> loader_options" where
  "sample_options_raw raw = (sample_options None)\<lparr>rawOptions := raw\<rparr>"

definition sample_options_i18n :: loader_options where
  "sample_options_i18n = (sample_options None)\<lparr>opt_i18n := Some [(''locale'', JStr ''fr'')]\<rparr>"

definition sample_options_optimize :: loader_options where
  "sample_options_optimize = (sample_options None)\<lparr>opt_optimize := JBool True\<rparr>"

definition sample_babel_options :: babel_options where
  "sample_babel_options =
     \<lparr>plugins = Some [ExistingPlugin (JStr ''istanbul'')],
      presets = Some [ExistingPreset (JStr ''@babel/preset-env'')],
      inputSourceMap = JUndefined, other_options = []\<rparr>"

definition sample_custom_optimize :: AngularCustomOptions where
  "sample_custom_optimize =
     \<lparr>forceAsyncTransformation = False, forceES5 = False, angularLinker = None, i18n = None,
      optimize = Some \<lparr>looseEnums = True, pureTopLevel = True, wrapDecorators = False\<rparr>\<rparr>"

definition sample_raw_a :: jsobject where
  "sample_raw_a = [(''compact'', JBool True), (''comments'', JBool False)]"

definition sample_raw_b :: jsobject where
  "sample_raw_b = [(''comments'', JBool False), (''compact'', JBool True)]"

definition sample_custom_plain :: AngularCustomOptions where
  "sample_custom_plain =
     \<lparr>forceAsyncTransformation = False, forceES5 = True, angularLinker = None, i18n = None,
      optimize = None\<rparr>"

definition sample_babel_options_bare :: babel_options where
  "sample_babel_options_bare =
     \<lparr>plugins = None, presets = None, inputSourceMap = JUndefined, other_options = []\<rparr>"


section \<open>Properties\<close>

subsection \<open>Objects\<close>

lemma map_of_replace_property:
  "map_of (replace_property k v obj) k' =
     (if k' = k \<and> map_of obj k \<noteq> None then Some v else map_of obj k')"
  by (induction obj) auto

lemma map_of_insert_index:
  "map_of obj k = None \<Longrightarrow>
     map_of (insert_index n k v obj) k' = (if k' = k then Some v else map_of obj k')"
  by (induction obj) (auto split: option.splits if_splits)

lemma map_of_set_property:
  "map_of (set_property k v obj) = (map_of obj)(k \<mapsto> v)"
proof (rule ext)
  fix k'
  show "map_of (set_property k v obj) k' = ((map_of obj)(k \<mapsto> v)) k'"
  proof (cases "map_of obj k")
    case None
    then have "k \<notin> set (map fst obj)"
      by (simp add: map_of_eq_None_iff)
    with None show ?thesis
      by (auto simp: set_property_def map_of_insert_index map_add_def
          split: option.splits)
  next
    case (Some w)
    then have "k \<in> set (map fst obj)"
      using map_of_eq_None_iff[of obj k] by simp
    with Some show ?thesis
      by (simp add: set_property_def map_of_replace_property)
  qed
qed

lemma get_property_set_property:
  "get_property (set_property k v obj) k' = (if k' = k then v else get_property obj k')"
  by (simp add: get_property_def map_of_set_property)

subsection \<open>The four blocks of customOptions, one at a time\<close>

lemma analyze_linking_fields:
  assumes "analyze_linking e this opts source l s = (s1, Inr l1)"
  shows "forceES5 (customOptions_var l1) = forceES5 (customOptions_var l)"
    and "forceAsyncTransformation (customOptions_var l1) =
           forceAsyncTransformation (customOptions_var l)"
    and "i18n (customOptions_var l1) = i18n (customOptions_var l)"
    and "optimize (customOptions_var l1) = optimize (customOptions_var l)"
  using assms
  by (auto simp: analyze_linking_def split: prod.splits sum.splits bool.splits option.splits)

lemma analyze_linking_linker:
  assumes "analyze_linking e this opts source l s = (s1, Inr l1)"
    and "angularLinker (customOptions_var l) = None"
  shows "(angularLinker (customOptions_var l1) \<noteq> None) =
           (snd (requiresLinking e (resourcePath this) source s) = Inr True)"
    and "shouldProcess l1 = (shouldProcess l \<or> angularLinker (customOptions_var l1) \<noteq> None)"
  using assms
  by (auto simp: analyze_linking_def split: prod.splits sum.splits bool.splits option.splits)

lemma analyze_target_fields:
  "angularLinker (customOptions_var (analyze_target this opts source l)) =
     angularLinker (customOptions_var l)"
  "i18n (customOptions_var (analyze_target this opts source l)) = i18n (customOptions_var l)"
  "optimize (customOptions_var (analyze_target this opts source l)) =
     optimize (customOptions_var l)"
  by (auto simp: analyze_target_def Let_def split: option.splits)

lemma analyze_target_force:
  assumes "\<not> forceES5 (customOptions_var l)"
    and "\<not> forceAsyncTransformation (customOptions_var l)"
  shows "forceES5 (customOptions_var (analyze_target this opts source l)) =
           (\<exists>t. opt_scriptTarget opts = Some t \<and> t < ES2015)"
    and "forceAsyncTransformation (customOptions_var (analyze_target this opts source l)) =
           (\<exists>t. opt_scriptTarget opts = Some t \<and> \<not> t < ES2015 \<and>
                (t \<ge> ES2017 \<or> regex_test js_extension_re (resourcePath this)) \<and>
                \<not> regex_test esm2015_re (resourcePath this) \<and> str_includes source ''async'')"
    and "shouldProcess (analyze_target this opts source l) =
           (shouldProcess l \<or>
            forceAsyncTransformation (customOptions_var (analyze_target this opts source l)) \<or>
            forceES5 (customOptions_var (analyze_target this opts source l)))"
  using assms
  by (auto simp: analyze_target_def Let_def split: option.splits)

lemma analyze_i18n_fields:
  assumes "analyze_i18n e this opts source l s = (s1, l1)"
  shows "forceES5 (customOptions_var l1) = forceES5 (customOptions_var l)"
    and "forceAsyncTransformation (customOptions_var l1) =
           forceAsyncTransformation (customOptions_var l)"
    and "angularLinker (customOptions_var l1) = angularLinker (customOptions_var l)"
    and "optimize (customOptions_var l1) = optimize (customOptions_var l)"
  using assms
  by (auto simp: analyze_i18n_def Let_def split: option.splits if_splits)

lemma analyze_i18n_i18n:
  assumes "analyze_i18n e this opts source l s = (s1, l1)"
    and "i18n (customOptions_var l) = None"
  shows "(i18n (customOptions_var l1) \<noteq> None) = i18n_applies this opts source"
    and "shouldProcess l1 = (shouldProcess l \<or> i18n (customOptions_var l1) \<noteq> None)"
  using assms
  by (auto simp: analyze_i18n_def i18n_applies_def Let_def split: option.splits if_splits)

lemma analyze_optimize_fields:
  "forceES5 (customOptions_var (analyze_optimize this opts l)) = forceES5 (customOptions_var l)"
  "forceAsyncTransformation (customOptions_var (analyze_optimize this opts l)) =
     forceAsyncTransformation (customOptions_var l)"
  "angularLinker (customOptions_var (analyze_optimize this opts l)) =
     angularLinker (customOptions_var l)"
  "i18n (customOptions_var (analyze_optimize this opts l)) = i18n (customOptions_var l)"
  by (auto simp: analyze_optimize_def Let_def)

lemma analyze_optimize_optimize:
  "optimize (customOptions_var (analyze_optimize this opts l)) =
     (if truthy (opt_optimize opts)
      then Some \<lparr>looseEnums = regex_test angular_package_re (resourcePath this),
                 pureTopLevel = regex_test angular_package_re (resourcePath this),
                 wrapDecorators = side_effect_free this\<rparr>
      else optimize (customOptions_var l))"
  "shouldProcess (analyze_optimize this opts l) = (shouldProcess l \<or> truthy (opt_optimize opts))"
  by (auto simp: analyze_optimize_def Let_def)

subsection \<open>The locals at the end of the analysis\<close>

lemma resolve_Inr:
  assumes "resolve e this opts source s = (s', Inr l)"
  obtains s1 l1 l3 where
    "analyze_linking e this opts source (initial_locals opts) s = (s1, Inr l1)"
    "analyze_i18n e this opts source (analyze_target this opts source l1) s1 = (s', l3)"
    "l = analyze_optimize this opts l3"
  using assms
  by (auto simp: resolve_def split: prod.splits sum.splits)

lemma customOptions_Inr:
  assumes "customOptions e this opts source s = (s', Inr r)"
  obtains l where "resolve e this opts source s = (s', Inr l)"
    "custom r = customOptions_var l" "loader r = loaderOptions e opts l"
  using assms
  by (auto simp: customOptions_def split: prod.splits sum.splits)

lemma initial_locals_simps:
  "shouldProcess (initial_locals opts) = has_plugins (rawOptions opts)"
  "forceES5 (customOptions_var (initial_locals opts)) = False"
  "forceAsyncTransformation (customOptions_var (initial_locals opts)) = False"
  "angularLinker (customOptions_var (initial_locals opts)) = None"
  "i18n (customOptions_var (initial_locals opts)) = None"
  "optimize (customOptions_var (initial_locals opts)) = None"
  by (simp_all add: initial_locals_def)

lemma resolve_fields:
  assumes "resolve e this opts source s = (s', Inr l)"
  shows "forceES5 (customOptions_var l) = (\<exists>t. opt_scriptTarget opts = Some t \<and> t < ES2015)"
      (is ?A)
    and "forceAsyncTransformation (customOptions_var l) =
           (\<exists>t. opt_scriptTarget opts = Some t \<and> \<not> t < ES2015 \<and>
                (t \<ge> ES2017 \<or> regex_test js_extension_re (resourcePath this)) \<and>
                \<not> regex_test esm2015_re (resourcePath this) \<and> str_includes source ''async'')"
      (is ?B)
    and "(angularLinker (customOptions_var l) \<noteq> None) =
           (snd (requiresLinking e (resourcePath this) source s) = Inr True)" (is ?C)
    and "(i18n (customOptions_var l) \<noteq> None) = i18n_applies this opts source" (is ?D)
    and "optimize (customOptions_var l) =
           (if truthy (opt_optimize opts)
            then Some \<lparr>looseEnums = regex_test angular_package_re (resourcePath this),
                       pureTopLevel = regex_test angular_package_re (resourcePath this),
                       wrapDecorators = side_effect_free this\<rparr>
            else None)" (is ?E)
    and "shouldProcess l =
           (has_plugins (rawOptions opts) \<or> angularLinker (customOptions_var l) \<noteq> None \<or>
            forceAsyncTransformation (customOptions_var l) \<or> forceES5 (customOptions_var l) \<or>
            i18n (customOptions_var l) \<noteq> None \<or> truthy (opt_optimize opts))" (is ?F)
proof -
  from assms obtain s1 l1 l3 where
    lnk: "analyze_linking e this opts source (initial_locals opts) s = (s1, Inr l1)" and
    i18: "analyze_i18n e this opts source (analyze_target this opts source l1) s1 = (s', l3)" and
    l: "l = analyze_optimize this opts l3"
    by (rule resolve_Inr)
  let ?l2 = "analyze_target this opts source l1"
  note f1 = analyze_linking_fields[OF lnk] analyze_linking_linker[OF lnk]
  have n1: "\<not> forceES5 (customOptions_var l1)"
    "\<not> forceAsyncTransformation (customOptions_var l1)"
    by (simp_all add: f1 initial_locals_simps)
  note f2 = analyze_target_force[OF n1, of this opts source]
    analyze_target_fields[of this opts source l1]
  note f3 = analyze_i18n_fields[OF i18]
  have n3: "i18n (customOptions_var ?l2) = None"
    by (simp add: f2 f1 initial_locals_simps)
  note f3' = analyze_i18n_i18n[OF i18 n3]
  show ?A by (simp add: l analyze_optimize_fields f3 f2)
  show ?B by (simp add: l analyze_optimize_fields f3 f2)
  show ?C
    by (simp add: l analyze_optimize_fields f3 f2 f1 initial_locals_simps del: not_None_eq)
  show ?D by (simp add: l analyze_optimize_fields f3' del: not_None_eq)
  show ?E by (simp add: l analyze_optimize_optimize f3 f2 f1 initial_locals_simps)
  show ?F
    by (simp add: l analyze_optimize_optimize analyze_optimize_fields f3 f3' f2 f1
        initial_locals_simps del: not_None_eq)
qed

subsection \<open>The i18n block and the module state\<close>

lemma analyze_linking_i18nPluginCreators:
  assumes "analyze_linking e this opts source l s = (s1, res)"
  shows "i18nPluginCreators s1 = i18nPluginCreators s"
  using assms
  by (auto simp: analyze_linking_def requiresLinking_def loadEsmModule_def call_detector_def
      split: prod.splits sum.splits bool.splits option.splits if_splits)

lemma load_i18nPluginCreators_state:
  "i18nPluginCreators (load_i18nPluginCreators e s) =
     (case i18nPluginCreators s of
        Some m \<Rightarrow> Some m
      | None \<Rightarrow> (case localize_tools_module e of Inl err \<Rightarrow> None | Inr m \<Rightarrow> Some m))"
  "loads (load_i18nPluginCreators e s) =
     (if i18nPluginCreators s = None then loads s @ [''@angular/localize/tools''] else loads s)"
  by (auto simp: load_i18nPluginCreators_def loadEsmModule_def split: sum.splits option.splits)

lemma resolve_after_linking:
  assumes "analyze_linking e this opts source (initial_locals opts) s = (s1, Inr l1)"
  shows "\<exists>l. resolve e this opts source s =
           (if i18n_applies this opts source then load_i18nPluginCreators e s1 else s1, Inr l)"
  using assms
  by (auto simp: resolve_def analyze_i18n_def i18n_applies_def Let_def split: option.splits)

lemma customOptions_resolve:
  "fst (customOptions e this opts source s) = fst (resolve e this opts source s)"
  "resolve e this opts source s = (s', Inr l) \<Longrightarrow>
     customOptions e this opts source s =
       (s', Inr \<lparr>custom = customOptions_var l, loader = loaderOptions e opts l\<rparr>)"
  by (auto simp: customOptions_def split: prod.splits sum.splits)

lemma analyze_i18n_attached:
  assumes "analyze_i18n e this opts source l s = (s1, l1)"
    and "i18n_applies this opts source"
  shows "\<exists>cfg. i18n (customOptions_var l1) = Some cfg \<and>
           get_property cfg ''i18nPluginCreators'' =
             (case i18nPluginCreators s1 of None \<Rightarrow> JUndefined | Some m \<Rightarrow> JObj m)"
  using assms
  by (auto simp: analyze_i18n_def i18n_applies_def Let_def get_property_set_property
      split: option.splits if_splits)

lemma get_property_cacheIdentifier:
  "get_property (loaderOptions e opts l) ''cacheIdentifier'' =
     cacheIdentifier (package_version e) (customOptions_var l) baseOptions (rawOptions opts)"
  by (simp add: loaderOptions_def Let_def get_property_set_property)

subsection \<open>When an invocation returns\<close>

text \<open>
  An invocation fails only when one of the two linker modules has to be loaded and the
  load fails.
\<close>

lemma requiresLinking_returns:
  assumes "regex_test linking_exempt_re path \<or> needsLinking s \<noteq> None \<or> \<not> isl (linker_module e)"
  shows "\<exists>s' b. requiresLinking e path source s = (s', Inr b) \<and>
           linkerPluginCreator s' = linkerPluginCreator s"
  using assms
  by (auto simp: requiresLinking_def loadEsmModule_def call_detector_def
      split: option.splits sum.splits)

lemma customOptions_returns:
  assumes "regex_test linking_exempt_re (resourcePath this) \<or> needsLinking s \<noteq> None \<or>
           \<not> isl (linker_module e)"
    and "linkerPluginCreator s \<noteq> None \<or> \<not> isl (linker_babel_module e)"
  shows "\<exists>s' r. customOptions e this opts source s = (s', Inr r)"
proof -
  from requiresLinking_returns[OF assms(1)] obtain s1 b where
    rl: "requiresLinking e (resourcePath this) source s = (s1, Inr b)"
    and c: "linkerPluginCreator s1 = linkerPluginCreator s"
    by blast
  with assms(2) have "\<exists>s2 l1. analyze_linking e this opts source (initial_locals opts) s = (s2, Inr l1)"
    by (cases b) (auto simp: analyze_linking_def loadEsmModule_def split: option.splits sum.splits)
  then obtain s2 l1 where
    "analyze_linking e this opts source (initial_locals opts) s = (s2, Inr l1)"
    by blast
  from resolve_after_linking[OF this] obtain s' l where
    "resolve e this opts source s = (s', Inr l)"
    by blast
  from customOptions_resolve(2)[OF this] show ?thesis
    by blast
qed

subsection \<open>An invocation run on its own\<close>















subsection \<open>The linker caches over invocations one after another\<close>







subsection \<open>The text of the cache key\<close>

lemma JSON_stringify_JObj:
  "JSON_stringify (JObj kvs) = Some (''{'' @ join '','' (json_members kvs) @ ''}'')"
  by (simp add: json_members_def)

lemma cacheIdentifier_text:
  assumes "JSON_stringify cv = Some cs"
  shows "JSON_stringify
           (JObj [(''buildAngular'', JStr v), (''customOptions'', cv),
                  (''baseOptions'', JObj base), (''rawOptions'', JObj raw)]) =
         Some (''{'' @ quote ''buildAngular'' @ '':'' @ quote v @ '','' @
               quote ''customOptions'' @ '':'' @ cs @ '','' @
               quote ''baseOptions'' @ '':'' @ ''{'' @ join '','' (json_members base) @ ''}'' @
               '','' @
               quote ''rawOptions'' @ '':'' @ ''{'' @ join '','' (json_members raw) @ ''}'' @
               ''}'')"
  using assms by (simp add: json_members_def)

lemma customOptions_value_text:
  "\<exists>cs. JSON_stringify (customOptions_value co) = Some cs"
  by (simp add: customOptions_value_def)

text \<open>The definitions a concrete run unfolds.\<close>

lemmas run_defs =
  customOptions_def resolve_def analyze_linking_def requiresLinking_def loadEsmModule_def
  call_detector_def initial_locals_def has_plugins_def analyze_target_def analyze_i18n_def
  load_i18nPluginCreators_def analyze_optimize_def side_effect_free_def i18n_applies_def
  loaderOptions_def get_property_def set_property_def array_index_def is_digit_def
  digits_value_def initial_state_def ES2015_def ES2017_def
  regex_test_def str_includes_def seqs_def sep_def linking_exempt_re_def js_extension_re_def
  esm2015_re_def localize_exempt_re_def angular_package_re_def

lemmas sample_defs =
  sample_env_def sample_env_tools_def sample_context_def sample_context_pure_def
  sample_options_def sample_options_raw_def sample_options_i18n_def
  sample_options_optimize_def


section \<open>Claims\<close>

text \<open>
  C1. For every invocation that returns, the local \<^verbatim>\<open>shouldProcess\<close> is true at the end
  exactly when the raw options hold a non-empty array of plugins, or the file requires
  linking, or \<^verbatim>\<open>forceAsyncTransformation\<close> or \<^verbatim>\<open>forceES5\<close> is set, or the i18n block
  applied, or \<^verbatim>\<open>optimize\<close> was truthy; and when it is false, the returned loader options
  have the property \<^verbatim>\<open>ignore\<close> set to the one-element list of the function that always
  answers true.
\<close>

theorem shouldProcess_iff:
  assumes "customOptions e this opts source s = (s', Inr r)"
  shows "\<exists>l. resolve e this opts source s = (s', Inr l) \<and>
           custom r = customOptions_var l \<and>
           (shouldProcess l \<longleftrightarrow>
              has_plugins (rawOptions opts) \<or>
              snd (requiresLinking e (resourcePath this) source s) = Inr True \<or>
              forceAsyncTransformation (custom r) \<or>
              forceES5 (custom r) \<or>
              i18n_applies this opts source \<or>
              truthy (opt_optimize opts)) \<and>
           (angularLinker (custom r) \<noteq> None \<longleftrightarrow>
              snd (requiresLinking e (resourcePath this) source s) = Inr True) \<and>
           (i18n (custom r) \<noteq> None \<longleftrightarrow> i18n_applies this opts source) \<and>
           (\<not> shouldProcess l \<longrightarrow>
              get_property (loader r) ''ignore'' = JArr [JFun ConstTrue])"
proof -
  from assms obtain l where res: "resolve e this opts source s = (s', Inr l)"
    and cu: "custom r = customOptions_var l" and lo: "loader r = loaderOptions e opts l"
    by (rule customOptions_Inr)
  have linker: "(angularLinker (custom r) \<noteq> None) =
      (snd (requiresLinking e (resourcePath this) source s) = Inr True)"
    unfolding cu by (rule resolve_fields(3)[OF res])
  have loc: "(i18n (custom r) \<noteq> None) = i18n_applies this opts source"
    unfolding cu by (rule resolve_fields(4)[OF res])
  have sp: "shouldProcess l =
      (has_plugins (rawOptions opts) \<or> angularLinker (custom r) \<noteq> None \<or>
       forceAsyncTransformation (custom r) \<or> forceES5 (custom r) \<or>
       i18n (custom r) \<noteq> None \<or> truthy (opt_optimize opts))"
    unfolding cu by (rule resolve_fields(6)[OF res])
  have ign: "\<not> shouldProcess l \<longrightarrow> get_property (loader r) ''ignore'' = JArr [JFun ConstTrue]"
    by (simp add: lo loaderOptions_def Let_def get_property_set_property)
  from res cu sp linker loc ign show ?thesis
    by blast
qed

theorem shouldProcess_iff_witness:
  "\<exists>s' r. customOptions sample_env (sample_context ''/app/src/main.ts'')
             (sample_options None) ''export {}'' initial_state = (s', Inr r) \<and>
          get_property (loader r) ''ignore'' = JArr [JFun ConstTrue]"
proof -
  let ?ctx = "sample_context ''/app/src/main.ts''"
  obtain s' r where run: "customOptions sample_env ?ctx
      (sample_options None) ''export {}'' initial_state = (s', Inr r)"
    and cu: "\<not> forceAsyncTransformation (custom r)" "\<not> forceES5 (custom r)"
    by (simp add: run_defs sample_defs)
  have no: "\<not> has_plugins (rawOptions (sample_options None))"
    "snd (requiresLinking sample_env (resourcePath ?ctx) ''export {}'' initial_state) \<noteq> Inr True"
    "\<not> i18n_applies ?ctx (sample_options None) ''export {}''"
    "\<not> truthy (opt_optimize (sample_options None))"
    by (simp_all add: run_defs sample_defs)
  from shouldProcess_iff[OF run] cu no
  have "get_property (loader r) ''ignore'' = JArr [JFun ConstTrue]"
    by blast
  with run show ?thesis by blast
qed

text \<open>
  C2. When the path matches the pattern of line 44, \<^verbatim>\<open>requiresLinking\<close> returns false and
  leaves the state as it was: no module is loaded and the detector is not called.
  Otherwise, whenever a detector is at hand (cached, or exported by the module that
  loads), \<^verbatim>\<open>requiresLinking\<close> returns what this detector answers for the path and the
  source text, after exactly one call of it with these arguments; and when none is cached
  and the load fails, it fails with the load's error.
\<close>

theorem requiresLinking_result:
  "(regex_test linking_exempt_re path \<longrightarrow>
      requiresLinking e path source s = (s, Inr False)) \<and>
   (\<not> regex_test linking_exempt_re path \<longrightarrow>
      (\<forall>f. needsLinking s = Some f \<or> (needsLinking s = None \<and> linker_module e = Inr f) \<longrightarrow>
         (\<exists>s'. requiresLinking e path source s = (s', Inr (f path source)) \<and>
               needsLinking s' = Some f \<and>
               detections s' = detections s @ [(path, source)])) \<and>
      (\<forall>err. needsLinking s = None \<and> linker_module e = Inl err \<longrightarrow>
         snd (requiresLinking e path source s) = Inl err))"
  by (auto simp: requiresLinking_def loadEsmModule_def call_detector_def
      split: option.splits sum.splits)

theorem requiresLinking_result_witness:
  "regex_test linking_exempt_re ''/app/src/main.ts'' \<and>
   requiresLinking sample_env ''/app/src/main.ts'' ''ngDeclareComponent'' initial_state =
     (initial_state, Inr False) \<and>
   \<not> regex_test linking_exempt_re ''/app/node_modules/lib/index.mjs'' \<and>
   snd (requiresLinking sample_env ''/app/node_modules/lib/index.mjs'' ''ngDeclareComponent''
          initial_state) = Inr True"
proof -
  have a: "regex_test linking_exempt_re ''/app/src/main.ts''"
    and b: "\<not> regex_test linking_exempt_re ''/app/node_modules/lib/index.mjs''"
    and c: "needsLinking initial_state = None"
      "linker_module sample_env = Inr (\<lambda>path source. str_includes source ''ngDeclare'')"
    and d: "str_includes ''ngDeclareComponent'' ''ngDeclare''"
    by (simp_all add: run_defs sample_defs)
  from requiresLinking_result[of "''/app/src/main.ts''" sample_env "''ngDeclareComponent''"
      initial_state] a
  have 1: "requiresLinking sample_env ''/app/src/main.ts'' ''ngDeclareComponent'' initial_state =
     (initial_state, Inr False)" by blast
  from requiresLinking_result[of "''/app/node_modules/lib/index.mjs''" sample_env
      "''ngDeclareComponent''" initial_state] b c d
  have 2: "snd (requiresLinking sample_env ''/app/node_modules/lib/index.mjs''
      ''ngDeclareComponent'' initial_state) = Inr True"
    by fastforce
  from a b 1 2 show ?thesis by blast
qed

text \<open>
  C3, as the code has it. For every invocation that returns, \<^verbatim>\<open>forceAsyncTransformation\<close>
  is true exactly when the script target is given, is not below \<^verbatim>\<open>ES2015\<close>, is at least
  \<^verbatim>\<open>ES2017\<close> or the path has a JavaScript extension, the source text contains
  \<^verbatim>\<open>async\<close>, and the path is not under an \<^verbatim>\<open>esm2015\<close> directory.
\<close>

theorem forceAsyncTransformation_iff:
  assumes "customOptions e this opts source s = (s', Inr r)"
  shows "forceAsyncTransformation (custom r) \<longleftrightarrow>
           (\<exists>t. opt_scriptTarget opts = Some t \<and> ES2015 \<le> t \<and>
                (ES2017 \<le> t \<or> regex_test js_extension_re (resourcePath this)) \<and>
                str_includes source ''async'' \<and>
                \<not> regex_test esm2015_re (resourcePath this))"
proof -
  from assms obtain l where "resolve e this opts source s = (s', Inr l)"
    and "custom r = customOptions_var l"
    by (rule customOptions_Inr)
  then show ?thesis
    by (auto simp: resolve_fields(2))
qed

theorem forceAsyncTransformation_iff_witness:
  "\<exists>s' r. customOptions sample_env (sample_context ''/app/node_modules/lib/index.js'')
             (sample_options (Some 2)) ''async function f() {}'' initial_state = (s', Inr r) \<and>
          forceAsyncTransformation (custom r)"
proof -
  obtain s' r where run: "customOptions sample_env (sample_context ''/app/node_modules/lib/index.js'')
      (sample_options (Some 2)) ''async function f() {}'' initial_state = (s', Inr r)"
    by (simp add: run_defs sample_defs)
  from forceAsyncTransformation_iff[OF run] have "forceAsyncTransformation (custom r)"
    by (simp add: run_defs sample_defs)
  with run show ?thesis by blast
qed

text \<open>
  C3, as stated, fails: with target ES5 (1), a path ending in \<^verbatim>\<open>.js\<close> outside any
  \<^verbatim>\<open>esm2015\<close> directory and a source text containing \<^verbatim>\<open>async\<close>, every condition of
  the claim holds and the code leaves \<^verbatim>\<open>forceAsyncTransformation\<close> false, having taken
  the \<^verbatim>\<open>forceES5\<close> branch.
\<close>

theorem forceAsyncTransformation_counterexample:
  "map_sum id (forceAsyncTransformation \<circ> custom)
     (snd (customOptions sample_env (sample_context ''/app/node_modules/lib/index.js'')
        (sample_options (Some 1)) ''async function f() {}'' initial_state)) = Inr False \<and>
   opt_scriptTarget (sample_options (Some 1)) = Some 1 \<and>
   regex_test js_extension_re (resourcePath (sample_context ''/app/node_modules/lib/index.js'')) \<and>
   str_includes ''async function f() {}'' ''async'' \<and>
   \<not> regex_test esm2015_re (resourcePath (sample_context ''/app/node_modules/lib/index.js''))"
  by (simp add: run_defs sample_defs)

text \<open>
  C4, as the code has it. The cache key of an invocation that returns is the text
  \<^verbatim>\<open>JSON.stringify\<close> gives for the object holding the version, the custom options, the
  base options and the raw options: these four members in this order, each object
  inside written with its members in the object's own property order. Nothing else
  enters it: two invocations that agree on the version, on the custom options they
  resolve and on the raw options (the base options are a constant) produce the same key.
\<close>

theorem cache_key_pure:
  assumes "customOptions e1 this1 opts1 source1 s1 = (s1', Inr r1)"
    and "customOptions e2 this2 opts2 source2 s2 = (s2', Inr r2)"
    and "package_version e1 = package_version e2"
    and "custom r1 = custom r2"
    and "rawOptions opts1 = rawOptions opts2"
  shows "cache_key r1 = cache_key r2 \<and>
         (\<exists>key cs.
            cache_key r1 = JStr key \<and>
            JSON_stringify
              (JObj [(''buildAngular'', JStr (package_version e1)),
                     (''customOptions'', customOptions_value (custom r1)),
                     (''baseOptions'', JObj baseOptions),
                     (''rawOptions'', JObj (rawOptions opts1))]) = Some key \<and>
            JSON_stringify (customOptions_value (custom r1)) = Some cs \<and>
            key =
              ''{'' @ quote ''buildAngular'' @ '':'' @ quote (package_version e1) @ '','' @
              quote ''customOptions'' @ '':'' @ cs @ '','' @
              quote ''baseOptions'' @ '':'' @
                ''{'' @ join '','' (json_members baseOptions) @ ''}'' @ '','' @
              quote ''rawOptions'' @ '':'' @
                ''{'' @ join '','' (json_members (rawOptions opts1)) @ ''}'' @
              ''}'')"
proof -
  from assms(1) obtain l1 where c1: "custom r1 = customOptions_var l1"
    and lo1: "loader r1 = loaderOptions e1 opts1 l1"
    by (rule customOptions_Inr)
  from assms(2) obtain l2 where c2: "custom r2 = customOptions_var l2"
    and lo2: "loader r2 = loaderOptions e2 opts2 l2"
    by (rule customOptions_Inr)
  have k1: "cache_key r1 =
      cacheIdentifier (package_version e1) (custom r1) baseOptions (rawOptions opts1)"
    by (simp add: cache_key_def lo1 c1 get_property_cacheIdentifier)
  have k2: "cache_key r2 =
      cacheIdentifier (package_version e2) (custom r2) baseOptions (rawOptions opts2)"
    by (simp add: cache_key_def lo2 c2 get_property_cacheIdentifier)
  from k1 k2 assms(3-5) have same: "cache_key r1 = cache_key r2"
    by simp
  obtain cs where cs: "JSON_stringify (customOptions_value (custom r1)) = Some cs"
    using customOptions_value_text by blast
  note shape = cacheIdentifier_text[OF cs, of "package_version e1" baseOptions "rawOptions opts1"]
  have "cache_key r1 =
      JStr (''{'' @ quote ''buildAngular'' @ '':'' @ quote (package_version e1) @ '','' @
            quote ''customOptions'' @ '':'' @ cs @ '','' @
            quote ''baseOptions'' @ '':'' @
              ''{'' @ join '','' (json_members baseOptions) @ ''}'' @ '','' @
            quote ''rawOptions'' @ '':'' @
              ''{'' @ join '','' (json_members (rawOptions opts1)) @ ''}'' @
            ''}'')"
    unfolding k1 cacheIdentifier_def shape by simp
  with same cs shape show ?thesis
    by blast
qed

theorem cache_key_pure_witness:
  "\<exists>s1 r1 s2 r2.
     customOptions sample_env (sample_context ''/app/src/main.ts'') (sample_options None)
       ''export {}'' initial_state = (s1, Inr r1) \<and>
     customOptions sample_env_tools (sample_context ''/app/src/app.component.ts'')
       (sample_options None) ''export class AppComponent {}'' initial_state = (s2, Inr r2) \<and>
     custom r1 = custom r2 \<and> cache_key r1 = cache_key r2"
proof -
  obtain s1 r1 where run1: "customOptions sample_env (sample_context ''/app/src/main.ts'')
      (sample_options None) ''export {}'' initial_state = (s1, Inr r1)"
    and c1: "custom r1 = \<lparr>forceAsyncTransformation = False, forceES5 = False,
      angularLinker = None, i18n = None, optimize = None\<rparr>"
    by (simp add: run_defs sample_defs)
  obtain s2 r2 where run2: "customOptions sample_env_tools
      (sample_context ''/app/src/app.component.ts'') (sample_options None)
      ''export class AppComponent {}'' initial_state = (s2, Inr r2)"
    and c2: "custom r2 = \<lparr>forceAsyncTransformation = False, forceES5 = False,
      angularLinker = None, i18n = None, optimize = None\<rparr>"
    by (simp add: run_defs sample_defs)
  have v: "package_version sample_env = package_version sample_env_tools"
    by (simp add: sample_defs)
  from c1 c2 have cc: "custom r1 = custom r2" by simp
  from cache_key_pure[OF run1 run2 v cc refl] have "cache_key r1 = cache_key r2"
    by (rule conjunct1)
  with run1 run2 cc show ?thesis by blast
qed

text \<open>
  C4, as stated, fails: the key depends on the insertion order. The raw options
  \<^verbatim>\<open>{compact: true, comments: false}\<close> and \<^verbatim>\<open>{comments: false, compact: true}\<close> hold
  the same properties with the same values, both invocations return, and their cache
  keys differ.
\<close>

theorem cache_key_order_counterexample:
  "map_of sample_raw_a = map_of sample_raw_b \<and>
   \<not> isl (snd (customOptions sample_env (sample_context ''/app/src/main.ts'')
            (sample_options_raw sample_raw_a) ''export {}'' initial_state)) \<and>
   \<not> isl (snd (customOptions sample_env (sample_context ''/app/src/main.ts'')
            (sample_options_raw sample_raw_b) ''export {}'' initial_state)) \<and>
   map_sum id cache_key
     (snd (customOptions sample_env (sample_context ''/app/src/main.ts'')
            (sample_options_raw sample_raw_a) ''export {}'' initial_state)) \<noteq>
   map_sum id cache_key
     (snd (customOptions sample_env (sample_context ''/app/src/main.ts'')
            (sample_options_raw sample_raw_b) ''export {}'' initial_state))"
proof -
  have "map_of sample_raw_a = map_of sample_raw_b"
    by (auto simp: sample_raw_a_def sample_raw_b_def fun_eq_iff)
  then show ?thesis
    by (simp add: run_defs sample_defs cache_key_def sample_raw_a_def sample_raw_b_def
        get_property_set_property cacheIdentifier_def customOptions_value_def baseOptions_def
        spread_def quote_def quote_char_def)
qed

text \<open>
  C5. When \<^verbatim>\<open>optimize\<close> is truthy and the invocation returns, \<^verbatim>\<open>looseEnums\<close> and
  \<^verbatim>\<open>pureTopLevel\<close> both equal the test of the path against the pattern of line 148
  (\<^verbatim>\<open>node_modules/@angular/\<close> between separators), and \<^verbatim>\<open>wrapDecorators\<close> is true
  exactly when the module of the loader context has factory metadata whose flag
  \<^verbatim>\<open>sideEffectFree\<close> is true, whatever the path.
\<close>

theorem optimize_flags:
  assumes "customOptions e this opts source s = (s', Inr r)"
    and "truthy (opt_optimize opts)"
  shows "\<exists>fl. optimize (custom r) = Some fl \<and>
           (looseEnums fl \<longleftrightarrow> regex_test angular_package_re (resourcePath this)) \<and>
           (pureTopLevel fl \<longleftrightarrow> regex_test angular_package_re (resourcePath this)) \<and>
           (wrapDecorators fl \<longleftrightarrow>
              (\<exists>m meta. this_module this = Some m \<and> factoryMeta m = Some meta \<and>
                        sideEffectFree meta = Some True)) \<and>
           (\<forall>p. side_effect_free (this\<lparr>resourcePath := p\<rparr>) = side_effect_free this)"
proof -
  from assms(1) obtain l where res: "resolve e this opts source s = (s', Inr l)"
    and cu: "custom r = customOptions_var l"
    by (rule customOptions_Inr)
  have sef: "side_effect_free this \<longleftrightarrow>
      (\<exists>m meta. this_module this = Some m \<and> factoryMeta m = Some meta \<and>
                sideEffectFree meta = Some True)"
    by (auto simp: side_effect_free_def split: option.splits)
  have "\<forall>p. side_effect_free (this\<lparr>resourcePath := p\<rparr>) = side_effect_free this"
    by (simp add: side_effect_free_def)
  with resolve_fields(5)[OF res] assms(2) sef show ?thesis
    by (simp add: cu)
qed

theorem optimize_flags_witness:
  "(\<exists>s' r. customOptions sample_env
             (sample_context_pure ''/app/node_modules/@angular/common/fesm2015/common.mjs'')
             sample_options_optimize ''export {}'' initial_state = (s', Inr r) \<and>
           optimize (custom r) =
             Some \<lparr>looseEnums = True, pureTopLevel = True, wrapDecorators = True\<rparr>) \<and>
   (\<exists>s' r. customOptions sample_env (sample_context ''/app/node_modules/lib/index.mjs'')
             sample_options_optimize ''export {}'' initial_state = (s', Inr r) \<and>
           optimize (custom r) =
             Some \<lparr>looseEnums = False, pureTopLevel = False, wrapDecorators = False\<rparr>)"
proof -
  let ?a = "sample_context_pure ''/app/node_modules/@angular/common/fesm2015/common.mjs''"
  let ?b = "sample_context ''/app/node_modules/lib/index.mjs''"
  have t: "truthy (opt_optimize sample_options_optimize)"
    by (simp add: sample_defs)
  obtain s1 r1 where run1: "customOptions sample_env ?a sample_options_optimize ''export {}''
      initial_state = (s1, Inr r1)"
    by (simp add: run_defs sample_defs)
  obtain s2 r2 where run2: "customOptions sample_env ?b sample_options_optimize ''export {}''
      initial_state = (s2, Inr r2)"
    by (simp add: run_defs sample_defs)
  have pa: "regex_test angular_package_re (resourcePath ?a)"
    "this_module ?a = Some \<lparr>factoryMeta = Some \<lparr>sideEffectFree = Some True\<rparr>\<rparr>"
    and pb: "\<not> regex_test angular_package_re (resourcePath ?b)" "this_module ?b = None"
    by (simp_all add: run_defs sample_defs)
  from optimize_flags[OF run1 t] pa
  have 1: "optimize (custom r1) =
      Some \<lparr>looseEnums = True, pureTopLevel = True, wrapDecorators = True\<rparr>"
    by auto
  from optimize_flags[OF run2 t] pb
  have 2: "optimize (custom r2) =
      Some \<lparr>looseEnums = False, pureTopLevel = False, wrapDecorators = False\<rparr>"
    by auto
  from run1 run2 1 2 show ?thesis by blast
qed

text \<open>
  C6. When the linking block does not fail, the i18n block applies, no plugin creators
  are cached and the load of \<^verbatim>\<open>@angular/localize/tools\<close> fails, the invocation still
  returns: \<^verbatim>\<open>shouldProcess\<close> is true, the load was requested last, the cache is still
  empty and the \<^verbatim>\<open>i18n\<close> options carry \<^verbatim>\<open>undefined\<close> as plugin creators. From the state
  it leaves, the next invocation whose i18n block applies requests the load again and
  caches what it gets; and from a state with cached plugin creators no invocation
  requests it.
\<close>

theorem i18n_load_failure_tolerated:
  assumes lnk: "analyze_linking e this opts source (initial_locals opts) s = (s1, Inr l1)"
    and app: "i18n_applies this opts source"
    and none: "i18nPluginCreators s = None"
    and fail: "localize_tools_module e = Inl err"
  shows "\<exists>s' r l cfg.
           customOptions e this opts source s = (s', Inr r) \<and>
           resolve e this opts source s = (s', Inr l) \<and> shouldProcess l \<and>
           i18nPluginCreators s' = None \<and>
           loads s' = loads s1 @ [''@angular/localize/tools''] \<and>
           i18n (custom r) = Some cfg \<and>
           get_property cfg ''i18nPluginCreators'' = JUndefined \<and>
           (\<forall>e2 this2 opts2 source2 s2 l2.
              analyze_linking e2 this2 opts2 source2 (initial_locals opts2) s' = (s2, Inr l2) \<and>
              i18n_applies this2 opts2 source2 \<longrightarrow>
              loads (fst (customOptions e2 this2 opts2 source2 s')) =
                loads s2 @ [''@angular/localize/tools''] \<and>
              i18nPluginCreators (fst (customOptions e2 this2 opts2 source2 s')) =
                (case localize_tools_module e2 of Inl err2 \<Rightarrow> None | Inr m \<Rightarrow> Some m)) \<and>
           (\<forall>e2 this2 opts2 source2 s0 s2 l2 m.
              i18nPluginCreators s0 = Some m \<and>
              analyze_linking e2 this2 opts2 source2 (initial_locals opts2) s0 = (s2, Inr l2) \<longrightarrow>
              loads (fst (customOptions e2 this2 opts2 source2 s0)) = loads s2 \<and>
              i18nPluginCreators (fst (customOptions e2 this2 opts2 source2 s0)) = Some m)"
proof -
  have c1: "i18nPluginCreators s1 = None"
    using analyze_linking_i18nPluginCreators[OF lnk] none by simp
  define s' where "s' = load_i18nPluginCreators e s1"
  from resolve_after_linking[OF lnk] app obtain l where
    res: "resolve e this opts source s = (s', Inr l)"
    by (auto simp: s'_def)
  define r where "r = \<lparr>custom = customOptions_var l, loader = loaderOptions e opts l\<rparr>"
  have run: "customOptions e this opts source s = (s', Inr r)"
    unfolding r_def by (rule customOptions_resolve(2)[OF res])
  have cache: "i18nPluginCreators s' = None"
    by (simp add: s'_def load_i18nPluginCreators_state c1 fail)
  have lds: "loads s' = loads s1 @ [''@angular/localize/tools'']"
    by (simp add: s'_def load_i18nPluginCreators_state c1)
  have sp: "shouldProcess l"
    using resolve_fields(4,6)[OF res] app by (simp del: not_None_eq)
  from res obtain t1 k1 k3 where
    lnk': "analyze_linking e this opts source (initial_locals opts) s = (t1, Inr k1)" and
    i18: "analyze_i18n e this opts source (analyze_target this opts source k1) t1 = (s', k3)" and
    l: "l = analyze_optimize this opts k3"
    by (rule resolve_Inr)
  from analyze_i18n_attached[OF i18 app] cache obtain cfg where
    cfg: "i18n (custom r) = Some cfg" "get_property cfg ''i18nPluginCreators'' = JUndefined"
    by (auto simp: r_def l analyze_optimize_fields)
  have again: "\<forall>e2 this2 opts2 source2 s2 l2.
      analyze_linking e2 this2 opts2 source2 (initial_locals opts2) s' = (s2, Inr l2) \<and>
      i18n_applies this2 opts2 source2 \<longrightarrow>
      loads (fst (customOptions e2 this2 opts2 source2 s')) =
        loads s2 @ [''@angular/localize/tools''] \<and>
      i18nPluginCreators (fst (customOptions e2 this2 opts2 source2 s')) =
        (case localize_tools_module e2 of Inl err2 \<Rightarrow> None | Inr m \<Rightarrow> Some m)"
  proof (intro allI impI, elim conjE)
    fix e2 this2 opts2 source2 s2 l2
    assume a: "analyze_linking e2 this2 opts2 source2 (initial_locals opts2) s' = (s2, Inr l2)"
      and b: "i18n_applies this2 opts2 source2"
    have c2: "i18nPluginCreators s2 = None"
      using analyze_linking_i18nPluginCreators[OF a] cache by simp
    from resolve_after_linking[OF a] b
    have "fst (customOptions e2 this2 opts2 source2 s') = load_i18nPluginCreators e2 s2"
      by (auto simp: customOptions_resolve(1))
    then show "loads (fst (customOptions e2 this2 opts2 source2 s')) =
        loads s2 @ [''@angular/localize/tools''] \<and>
      i18nPluginCreators (fst (customOptions e2 this2 opts2 source2 s')) =
        (case localize_tools_module e2 of Inl err2 \<Rightarrow> None | Inr m \<Rightarrow> Some m)"
      by (simp add: load_i18nPluginCreators_state c2)
  qed
  have cached: "\<forall>e2 this2 opts2 source2 s0 s2 l2 m.
      i18nPluginCreators s0 = Some m \<and>
      analyze_linking e2 this2 opts2 source2 (initial_locals opts2) s0 = (s2, Inr l2) \<longrightarrow>
      loads (fst (customOptions e2 this2 opts2 source2 s0)) = loads s2 \<and>
      i18nPluginCreators (fst (customOptions e2 this2 opts2 source2 s0)) = Some m"
  proof (intro allI impI, elim conjE)
    fix e2 this2 opts2 source2 s0 s2 l2 m
    assume m: "i18nPluginCreators s0 = Some m"
      and a: "analyze_linking e2 this2 opts2 source2 (initial_locals opts2) s0 = (s2, Inr l2)"
    have c2: "i18nPluginCreators s2 = Some m"
      using analyze_linking_i18nPluginCreators[OF a] m by simp
    from resolve_after_linking[OF a]
    have "fst (customOptions e2 this2 opts2 source2 s0) =
        (if i18n_applies this2 opts2 source2 then load_i18nPluginCreators e2 s2 else s2)"
      by (auto simp: customOptions_resolve(1))
    then show "loads (fst (customOptions e2 this2 opts2 source2 s0)) = loads s2 \<and>
      i18nPluginCreators (fst (customOptions e2 this2 opts2 source2 s0)) = Some m"
      by (simp add: load_i18nPluginCreators_state c2)
  qed
  from run res sp cache lds cfg again cached show ?thesis
    by blast
qed

theorem i18n_load_failure_tolerated_witness:
  "\<exists>s' r. customOptions sample_env (sample_context ''/app/src/main.ts'') sample_options_i18n
             ''$localize(greeting)'' initial_state = (s', Inr r) \<and>
          i18nPluginCreators s' = None \<and>
          loads s' = [''@angular/localize/tools''] \<and>
          loads (fst (customOptions sample_env_tools (sample_context ''/app/src/main.ts'')
                        sample_options_i18n ''$localize(greeting)'' s')) =
            [''@angular/localize/tools'', ''@angular/localize/tools''] \<and>
          i18nPluginCreators (fst (customOptions sample_env_tools
                        (sample_context ''/app/src/main.ts'')
                        sample_options_i18n ''$localize(greeting)'' s')) =
            Some [(''makeLocalePlugin'', JFun (Native 2))]"
proof -
  let ?ctx = "sample_context ''/app/src/main.ts''"
  let ?src = "''$localize(greeting)''"
  have lnk: "analyze_linking e ?ctx sample_options_i18n ?src (initial_locals sample_options_i18n) s =
      (s, Inr (initial_locals sample_options_i18n))" for e s
    by (simp add: analyze_linking_def requiresLinking_def regex_test_def linking_exempt_re_def
        seqs_def sep_def sample_context_def)
  have app: "i18n_applies ?ctx sample_options_i18n ?src"
    by (simp add: run_defs sample_defs)
  have none: "i18nPluginCreators initial_state = None"
    by (simp add: initial_state_def)
  have fail: "localize_tools_module sample_env = Inl (LoadFailure ''@angular/localize/tools'')"
    and ok: "localize_tools_module sample_env_tools = Inr [(''makeLocalePlugin'', JFun (Native 2))]"
    by (simp_all add: sample_defs)
  from i18n_load_failure_tolerated[OF lnk app none fail] obtain s' r where
    run: "customOptions sample_env ?ctx sample_options_i18n ?src initial_state = (s', Inr r)"
    and cache: "i18nPluginCreators s' = None"
    and lds: "loads s' = loads initial_state @ [''@angular/localize/tools'']"
    and again: "\<forall>e2 this2 opts2 source2 s2 l2.
      analyze_linking e2 this2 opts2 source2 (initial_locals opts2) s' = (s2, Inr l2) \<and>
      i18n_applies this2 opts2 source2 \<longrightarrow>
      loads (fst (customOptions e2 this2 opts2 source2 s')) =
        loads s2 @ [''@angular/localize/tools''] \<and>
      i18nPluginCreators (fst (customOptions e2 this2 opts2 source2 s')) =
        (case localize_tools_module e2 of Inl err2 \<Rightarrow> None | Inr m \<Rightarrow> Some m)"
    by (elim exE conjE) (rule that)
  have next_run: "analyze_linking sample_env_tools ?ctx sample_options_i18n ?src
      (initial_locals sample_options_i18n) s' = (s', Inr (initial_locals sample_options_i18n)) \<and>
      i18n_applies ?ctx sample_options_i18n ?src"
    using lnk app by simp
  from again[rule_format, OF next_run] lds ok
  have "loads (fst (customOptions sample_env_tools ?ctx sample_options_i18n ?src s')) =
      [''@angular/localize/tools'', ''@angular/localize/tools'']"
    and "i18nPluginCreators (fst (customOptions sample_env_tools ?ctx sample_options_i18n ?src s')) =
      Some [(''makeLocalePlugin'', JFun (Native 2))]"
    by (simp_all add: initial_state_def)
  with run cache lds show ?thesis
    by (auto simp: initial_state_def)
qed

text \<open>
  C7. When the custom options carry optimization flags, \<^verbatim>\<open>config\<close> returns the plugin
  list the configuration had, followed by the pure-top-level plugin if \<^verbatim>\<open>pureTopLevel\<close>
  is set, then the metadata elision plugin, then the enum plugin with \<^verbatim>\<open>loose\<close> set to
  \<^verbatim>\<open>looseEnums\<close>, then the static-member plugin with \<^verbatim>\<open>wrapDecorators\<close>; without
  optimization flags it returns the plugin list the configuration had. In both cases the
  preset list it returns is the one the configuration had followed by the application
  preset with the custom options and the diagnostics callback.
\<close>

theorem config_stage_order:
  "(\<forall>fl. optimize co = Some fl \<longrightarrow>
      plugins (config options co) =
        Some ((case plugins options of None \<Rightarrow> [] | Some ps \<Rightarrow> ps) @
              (if pureTopLevel fl then [PureToplevelFunctions] else []) @
              [ElideAngularMetadata, AdjustTypescriptEnums (looseEnums fl),
               AdjustStaticClassMembers (wrapDecorators fl)])) \<and>
   (optimize co = None \<longrightarrow>
      plugins (config options co) =
        Some (case plugins options of None \<Rightarrow> [] | Some ps \<Rightarrow> ps)) \<and>
   presets (config options co) =
     Some ((case presets options of None \<Rightarrow> [] | Some ps \<Rightarrow> ps) @
           [ApplicationPreset co diagnosticReporter])"
  by (simp add: config_def optimize_plugins_def Let_def)

theorem config_stage_order_witness:
  "optimize sample_custom_optimize =
     Some \<lparr>looseEnums = True, pureTopLevel = True, wrapDecorators = False\<rparr> \<and>
   plugins (config sample_babel_options sample_custom_optimize) =
     Some [ExistingPlugin (JStr ''istanbul''), PureToplevelFunctions, ElideAngularMetadata,
           AdjustTypescriptEnums True, AdjustStaticClassMembers False] \<and>
   presets (config sample_babel_options sample_custom_optimize) =
     Some [ExistingPreset (JStr ''@babel/preset-env''),
           ApplicationPreset sample_custom_optimize diagnosticReporter] \<and>
   optimize sample_custom_plain = None \<and>
   plugins (config sample_babel_options_bare sample_custom_plain) = Some [] \<and>
   presets (config sample_babel_options_bare sample_custom_plain) =
     Some [ApplicationPreset sample_custom_plain diagnosticReporter]"
proof -
  have h: "optimize sample_custom_optimize =
     Some \<lparr>looseEnums = True, pureTopLevel = True, wrapDecorators = False\<rparr>"
    and n: "optimize sample_custom_plain = None"
    by (simp_all add: sample_custom_optimize_def sample_custom_plain_def)
  from config_stage_order[of sample_custom_optimize sample_babel_options] h
  have a: "plugins (config sample_babel_options sample_custom_optimize) =
     Some [ExistingPlugin (JStr ''istanbul''), PureToplevelFunctions, ElideAngularMetadata,
           AdjustTypescriptEnums True, AdjustStaticClassMembers False]"
    "presets (config sample_babel_options sample_custom_optimize) =
     Some [ExistingPreset (JStr ''@babel/preset-env''),
           ApplicationPreset sample_custom_optimize diagnosticReporter]"
    by (simp_all add: sample_babel_options_def)
  from config_stage_order[of sample_custom_plain sample_babel_options_bare] n
  have b: "plugins (config sample_babel_options_bare sample_custom_plain) = Some []"
    "presets (config sample_babel_options_bare sample_custom_plain) =
     Some [ApplicationPreset sample_custom_plain diagnosticReporter]"
    by (simp_all add: sample_babel_options_bare_def)
  from h n a b show ?thesis
    by simp
qed




text \<open>
  C9. For every invocation that returns, \<^verbatim>\<open>forceES5\<close> is true exactly when the script
  target is given and lies strictly below \<^verbatim>\<open>ES2015\<close>.
\<close>

theorem forceES5_iff:
  assumes "customOptions e this opts source s = (s', Inr r)"
  shows "forceES5 (custom r) \<longleftrightarrow> (\<exists>t. opt_scriptTarget opts = Some t \<and> t < ES2015)"
proof -
  from assms obtain l where "resolve e this opts source s = (s', Inr l)"
    and "custom r = customOptions_var l"
    by (rule customOptions_Inr)
  then show ?thesis
    by (simp add: resolve_fields(1))
qed

theorem forceES5_iff_witness:
  "\<exists>s' r. customOptions sample_env (sample_context ''/app/src/main.ts'')
             (sample_options (Some 1)) ''export {}'' initial_state = (s', Inr r) \<and>
          forceES5 (custom r)"
proof -
  obtain s' r where run: "customOptions sample_env (sample_context ''/app/src/main.ts'')
      (sample_options (Some 1)) ''export {}'' initial_state = (s', Inr r)"
    by (simp add: run_defs sample_defs)
  from forceES5_iff[OF run] have "forceES5 (custom r)"
    by (simp add: sample_defs ES2015_def)
  with run show ?thesis by blast
qed

text \<open>
  C10. For every invocation that returns, \<^verbatim>\<open>forceES5\<close> and \<^verbatim>\<open>forceAsyncTransformation\<close>
  are not both true: the two assignments stand in exclusive branches on the target.
\<close>

theorem forceES5_forceAsync_exclusive:
  assumes "customOptions e this opts source s = (s', Inr r)"
  shows "\<not> (forceES5 (custom r) \<and> forceAsyncTransformation (custom r))"
proof -
  from assms obtain l where "resolve e this opts source s = (s', Inr l)"
    and "custom r = customOptions_var l"
    by (rule customOptions_Inr)
  then show ?thesis
    by (auto simp: resolve_fields(1,2))
qed

theorem forceES5_forceAsync_exclusive_witness:
  "\<exists>s' r. customOptions sample_env (sample_context ''/app/node_modules/lib/index.js'')
             (sample_options (Some 1)) ''async function f() {}'' initial_state = (s', Inr r) \<and>
          forceES5 (custom r) \<and> \<not> forceAsyncTransformation (custom r)"
proof -
  obtain s' r where run: "customOptions sample_env (sample_context ''/app/node_modules/lib/index.js'')
      (sample_options (Some 1)) ''async function f() {}'' initial_state = (s', Inr r)"
    and es5: "forceES5 (custom r)"
    by (simp add: run_defs sample_defs)
  from forceES5_forceAsync_exclusive[OF run] es5
  have "\<not> forceAsyncTransformation (custom r)" by simp
  with run es5 show ?thesis by blast
qed

end
